theory Spec2Isabelle
  imports Complex_Main "HOL-Library.Sublist"
begin

section \<open>JavaScript values\<close>

text \<open>
  A number is an IEEE double: every finite double is a rational, and the order on finite
  doubles is the order on these rationals.
\<close>

datatype js_number = Finite rat | PosInf | NegInf | NaN

text \<open>
  The values that \<^verbatim>\<open>JSON.parse\<close> and the token decoder produce. The handlers cast them to
  TypeScript interfaces without any check, so a field typed \<^verbatim>\<open>string\<close> or \<^verbatim>\<open>number\<close> can
  hold any of them at run time. A string is the list of its code units.
\<close>

datatype json =
    JsonNull
  | JsonBool bool
  | JsonNum js_number
  | JsonStr string
  | JsonArr "json list"
  | JsonObj "(string \<times> json) list"

text \<open>
  What reading a property of such a value gives: \<^verbatim>\<open>undefined\<close>, a member that the language
  builds in (a method of a prototype, or the prototype itself), named by the property, or a
  value of the same kind.
\<close>

datatype js_prop = Undefined | Native string | Json json

text \<open>
  The documents the handlers build: the inputs of the provider's commands and the bodies of
  the responses, before they are serialised.
\<close>

datatype js_value =
    JUndefined
  | JNative string
  | JNull
  | JBool bool
  | JNum js_number
  | JStr string
  | JDate int
  | JArr "js_value list"
  | JObj "(string \<times> js_value) list"

primrec of_json :: "json \<Rightarrow> js_value" where
  "of_json JsonNull = JNull"
| "of_json (JsonBool b) = JBool b"
| "of_json (JsonNum n) = JNum n"
| "of_json (JsonStr s) = JStr s"
| "of_json (JsonArr xs) = JArr (map of_json xs)"
| "of_json (JsonObj kvs) = JObj (map (map_prod id of_json) kvs)"

fun of_prop :: "js_prop \<Rightarrow> js_value" where
  "of_prop Undefined = JUndefined"
| "of_prop (Native name) = JNative name"
| "of_prop (Json v) = of_json v"

text \<open>A thrown value: an instance of \<^verbatim>\<open>Error\<close> with its name and message, or anything else.\<close>

datatype js_exn = JsError string string | NonError js_value

fun truthy_json :: "json \<Rightarrow> bool" where
  "truthy_json JsonNull = False"
| "truthy_json (JsonBool b) = b"
| "truthy_json (JsonNum n) = (n \<noteq> Finite 0 \<and> n \<noteq> NaN)"
| "truthy_json (JsonStr s) = (s \<noteq> [])"
| "truthy_json (JsonArr xs) = True"
| "truthy_json (JsonObj kvs) = True"

fun truthy :: "js_prop \<Rightarrow> bool" where
  "truthy Undefined = False"
| "truthy (Native name) = True"
| "truthy (Json v) = truthy_json v"

text \<open>\<^verbatim>\<open>a || b\<close>\<close>

definition js_or :: "js_prop \<Rightarrow> js_prop \<Rightarrow> js_prop" where
  "js_or a b = (if truthy a then a else b)"

definition bindE :: "'e + 'a \<Rightarrow> ('a \<Rightarrow> 'e + 'b) \<Rightarrow> 'e + 'b" where
  "bindE m f = (case m of Inl e \<Rightarrow> Inl e | Inr x \<Rightarrow> f x)"

subsection \<open>Reading a property\<close>

text \<open>
  The string-named members of the built-in prototypes, as Node.js 20 has them (ECMAScript
  2023 with its annex of legacy members, and the two well-formedness methods of strings).
  Every value but \<^verbatim>\<open>null\<close> inherits those of \<^verbatim>\<open>Object.prototype\<close>; a boolean, a number, a
  string and an array inherit those of their own prototype first.
\<close>

definition object_prototype_names :: "string list" where
  "object_prototype_names =
     [''constructor'', ''__defineGetter__'', ''__defineSetter__'', ''hasOwnProperty'',
      ''__lookupGetter__'', ''__lookupSetter__'', ''isPrototypeOf'', ''propertyIsEnumerable'',
      ''toString'', ''valueOf'', ''__proto__'', ''toLocaleString'']"

definition boolean_prototype_names :: "string list" where
  "boolean_prototype_names = [''constructor'', ''toString'', ''valueOf'']"

definition number_prototype_names :: "string list" where
  "number_prototype_names =
     [''constructor'', ''toExponential'', ''toFixed'', ''toPrecision'', ''toString'',
      ''valueOf'', ''toLocaleString'']"

definition string_prototype_names :: "string list" where
  "string_prototype_names =
     [''length'', ''constructor'', ''anchor'', ''at'', ''big'', ''blink'', ''bold'', ''charAt'',
      ''charCodeAt'', ''codePointAt'', ''concat'', ''endsWith'', ''fontcolor'', ''fontsize'',
      ''fixed'', ''includes'', ''indexOf'', ''isWellFormed'', ''italics'', ''lastIndexOf'',
      ''link'', ''localeCompare'', ''match'', ''matchAll'', ''normalize'', ''padEnd'',
      ''padStart'', ''repeat'', ''replace'', ''replaceAll'', ''search'', ''slice'', ''small'',
      ''split'', ''strike'', ''sub'', ''substr'', ''substring'', ''sup'', ''startsWith'',
      ''toString'', ''toWellFormed'', ''trim'', ''trimStart'', ''trimLeft'', ''trimEnd'',
      ''trimRight'', ''toLocaleLowerCase'', ''toLocaleUpperCase'', ''toLowerCase'',
      ''toUpperCase'', ''valueOf'']"

definition array_prototype_names :: "string list" where
  "array_prototype_names =
     [''length'', ''constructor'', ''at'', ''concat'', ''copyWithin'', ''fill'', ''find'',
      ''findIndex'', ''findLast'', ''findLastIndex'', ''lastIndexOf'', ''pop'', ''push'',
      ''reverse'', ''shift'', ''unshift'', ''slice'', ''sort'', ''splice'', ''includes'',
      ''indexOf'', ''join'', ''keys'', ''entries'', ''values'', ''forEach'', ''filter'',
      ''flat'', ''flatMap'', ''map'', ''every'', ''some'', ''reduce'', ''reduceRight'',
      ''toLocaleString'', ''toString'', ''toReversed'', ''toSorted'', ''toSpliced'', ''with'']"

text \<open>The member that a value inherits under a name, given the names of its own prototype.\<close>

definition inherited :: "string list \<Rightarrow> string \<Rightarrow> js_prop" where
  "inherited names k =
     (if k \<in> set names \<or> k \<in> set object_prototype_names then Native k else Undefined)"

text \<open>
  The index that a property name denotes in a string or an array: a decimal numeral with no
  leading zero.
\<close>

definition index_of :: "string \<Rightarrow> nat option" where
  "index_of k =
     (if k \<noteq> [] \<and> list_all (\<lambda>c. c \<in> set ''0123456789'') k \<and> (k = ''0'' \<or> hd k \<noteq> CHR ''0'')
        then Some (foldl (\<lambda>n c. 10 * n + (of_char c - 48)) 0 k)
      else None)"

definition type_error :: "string \<Rightarrow> js_exn" where
  "type_error k =
     JsError ''TypeError''
       (''Cannot read properties of null (reading '' @ [CHR 0x27] @ k @ [CHR 0x27] @ '')'')"

text \<open>
  \<^verbatim>\<open>v.k\<close> and \<^verbatim>\<open>v[k]\<close>. Reading a property of \<^verbatim>\<open>null\<close> throws a \<^verbatim>\<open>TypeError\<close>. An object
  gives the field it declares under the name, and otherwise what it inherits. A string and
  an array have their length and their elements, and otherwise what they inherit.
\<close>

fun get_prop :: "json \<Rightarrow> string \<Rightarrow> js_exn + js_prop" where
  "get_prop JsonNull k = Inl (type_error k)"
| "get_prop (JsonBool b) k = Inr (inherited boolean_prototype_names k)"
| "get_prop (JsonNum n) k = Inr (inherited number_prototype_names k)"
| "get_prop (JsonStr s) k =
     Inr (if k = ''length'' then Json (JsonNum (Finite (of_nat (length s))))
          else case index_of k of
                 Some i \<Rightarrow>
                   if i < length s then Json (JsonStr [s ! i])
                   else inherited string_prototype_names k
               | None \<Rightarrow> inherited string_prototype_names k)"
| "get_prop (JsonArr xs) k =
     Inr (if k = ''length'' then Json (JsonNum (Finite (of_nat (length xs))))
          else case index_of k of
                 Some i \<Rightarrow>
                   if i < length xs then Json (xs ! i)
                   else inherited array_prototype_names k
               | None \<Rightarrow> inherited array_prototype_names k)"
| "get_prop (JsonObj kvs) k =
     Inr (case map_of kvs k of Some v \<Rightarrow> Json v | None \<Rightarrow> inherited [] k)"

section \<open>The runtime and the provider\<close>

text \<open>
  Commands of the identity provider's client, each built from one input object
  (\<^verbatim>\<open>new AdminGetUserCommand({...})\<close>).
\<close>

datatype command =
    AdminGetUserCommand js_value
  | AdminUpdateUserAttributesCommand js_value
  | AdminDeleteUserCommand js_value
  | AdminSetUserPasswordCommand js_value
  | AdminInitiateAuthCommand js_value
  | AdminCreateUserCommand js_value

text \<open>What the client resolves to, with the fields the handlers read, typed as the SDK types them.\<close>

record AuthenticationResultType =
  AccessToken :: "string option"
  IdToken :: "string option"
  RefreshToken :: "string option"
  ExpiresIn :: "int option"
  TokenType :: "string option"

record AttributeType =
  Name :: "string option"
  Value :: "string option"

record command_output =
  AuthenticationResult :: "AuthenticationResultType option"
  Username :: "string option"
  UserAttributes :: "AttributeType list option"
  Enabled :: "bool option"
  UserStatus :: "string option"
  UserCreateDate :: "int option"
  UserLastModifiedDate :: "int option"

text \<open>
  Everything the handlers take from outside the repository: the JSON parser (\<open>None\<close> when it
  throws), the token decoder of the \<^verbatim>\<open>jsonwebtoken\<close> package (the flag is its \<^verbatim>\<open>complete\<close>
  option), the language's reading of a string as a number and printing of a number as a
  string, the clock in milliseconds, the environment variables, and the provider behind
  \<^verbatim>\<open>cognitoClient.send\<close>, which has a state of its own.
\<close>

record 's runtime =
  json_parse :: "string \<Rightarrow> json option"
  jwt_decode :: "js_prop \<Rightarrow> bool \<Rightarrow> js_exn + json"
  string_to_number :: "string \<Rightarrow> js_number"
  number_to_string :: "js_number \<Rightarrow> string"
  date_now :: int
  USER_POOL_ID :: js_value
  USER_POOL_CLIENT_ID :: js_value
  cognito_send :: "command \<Rightarrow> 's \<Rightarrow> (js_exn + command_output) \<times> 's"

text \<open>The provider's state and the commands sent to it so far.\<close>

record 's world =
  provider :: 's
  sent :: "command list"

definition client_send ::
  "'s runtime \<Rightarrow> command \<Rightarrow> 's world \<Rightarrow> (js_exn + command_output) \<times> 's world" where
  "client_send rt cmd w =
     (case cognito_send rt cmd (provider w) of
        (res, s') \<Rightarrow> (res, \<lparr>provider = s', sent = sent w @ [cmd]\<rparr>))"

text \<open>Sequencing of \<^verbatim>\<open>await\<close>ed calls: an exception ends the \<^verbatim>\<open>try\<close> block.\<close>

definition bindS ::
  "(js_exn + 'a) \<times> 'w \<Rightarrow> ('a \<Rightarrow> 'w \<Rightarrow> (js_exn + 'b) \<times> 'w) \<Rightarrow> (js_exn + 'b) \<times> 'w" where
  "bindS m f = (case m of (Inl e, w) \<Rightarrow> (Inl e, w) | (Inr x, w) \<Rightarrow> f x w)"

text \<open>\<^verbatim>\<open>try { ... } catch (error) { ... }\<close>. The \<^verbatim>\<open>console.error\<close> that opens every
  \<^verbatim>\<open>catch\<close> block writes to the log and is left out.\<close>

definition try_catch ::
  "(js_exn + 'a) \<times> 'w \<Rightarrow> (js_exn \<Rightarrow> js_exn + 'a) \<Rightarrow> (js_exn + 'a) \<times> 'w" where
  "try_catch m h = (case m of (Inl e, w) \<Rightarrow> (h e, w) | (Inr x, w) \<Rightarrow> (Inr x, w))"

subsection \<open>Conversion to a number\<close>

definition conversion_error :: js_exn where
  "conversion_error = JsError ''TypeError'' ''Cannot convert object to primitive value''"

text \<open>
  The conversion to a string of a parsed value, as \<^verbatim>\<open>Array.prototype.join\<close> and the
  comparison operators do it. An array joins its elements with commas, \<^verbatim>\<open>null\<close> elements
  giving the empty string. An object gives \<^verbatim>\<open>[object Object]\<close> through the \<^verbatim>\<open>toString\<close> it
  inherits; when it declares a field \<^verbatim>\<open>toString\<close>, which parsed from JSON is no function,
  that field hides the inherited method, \<^verbatim>\<open>valueOf\<close> gives no primitive value either, and
  the conversion throws.
\<close>

fun to_string :: "'s runtime \<Rightarrow> json \<Rightarrow> js_exn + string"
  and join_elements :: "'s runtime \<Rightarrow> json list \<Rightarrow> js_exn + string" where
  "to_string rt JsonNull = Inr ''null''"
| "to_string rt (JsonBool b) = Inr (if b then ''true'' else ''false'')"
| "to_string rt (JsonNum n) = Inr (number_to_string rt n)"
| "to_string rt (JsonStr s) = Inr s"
| "to_string rt (JsonArr xs) = join_elements rt xs"
| "to_string rt (JsonObj kvs) =
     (if map_of kvs ''toString'' \<noteq> None then Inl conversion_error
      else Inr ''[object Object]'')"
| "join_elements rt [] = Inr []"
| "join_elements rt (x # xs) =
     bindE (if x = JsonNull then Inr [] else to_string rt x) (\<lambda>s.
       if xs = [] then Inr s
       else bindE (join_elements rt xs) (\<lambda>rest. Inr (s @ '','' @ rest)))"

text \<open>
  The conversion to a number of the left operand of \<^verbatim>\<open><\<close>. A built-in member and an object
  that converts to a string give \<^verbatim>\<open>NaN\<close>, since their strings are no numerals.
\<close>

fun to_number :: "'s runtime \<Rightarrow> js_prop \<Rightarrow> js_exn + js_number" where
  "to_number rt Undefined = Inr NaN"
| "to_number rt (Native name) = Inr NaN"
| "to_number rt (Json JsonNull) = Inr (Finite 0)"
| "to_number rt (Json (JsonBool b)) = Inr (Finite (if b then 1 else 0))"
| "to_number rt (Json (JsonNum n)) = Inr n"
| "to_number rt (Json (JsonStr s)) = Inr (string_to_number rt s)"
| "to_number rt (Json (JsonArr xs)) =
     bindE (join_elements rt xs) (\<lambda>s. Inr (string_to_number rt s))"
| "to_number rt (Json (JsonObj kvs)) =
     (if map_of kvs ''toString'' \<noteq> None then Inl conversion_error else Inr NaN)"

fun num_less :: "js_number \<Rightarrow> js_number \<Rightarrow> bool" where
  "num_less NaN y = False"
| "num_less x NaN = False"
| "num_less (Finite a) (Finite b) = (a < b)"
| "num_less (Finite a) PosInf = True"
| "num_less (Finite a) NegInf = False"
| "num_less PosInf y = False"
| "num_less NegInf y = (y \<noteq> NegInf)"

text \<open>\<^verbatim>\<open>v < n\<close> for a number \<open>n\<close>: \<open>v\<close> is converted to a number, which can throw, and nothing
  is less than \<open>n\<close> when the conversion gives \<^verbatim>\<open>NaN\<close>.\<close>

definition js_less :: "'s runtime \<Rightarrow> js_prop \<Rightarrow> js_number \<Rightarrow> js_exn + bool" where
  "js_less rt v n = bindE (to_number rt v) (\<lambda>x. Inr (num_less x n))"

section \<open>Middleware\<close>

record APIGatewayProxyEvent =
  event_body :: "string option"
  event_headers :: "string \<rightharpoonup> string"

text \<open>
  The envelope. \<open>resp_body\<close> is the document handed to \<^verbatim>\<open>JSON.stringify\<close>; the serialiser
  belongs to the runtime.
\<close>

record ApiResponse =
  statusCode :: int
  resp_headers :: "(string \<times> string) list"
  resp_body :: js_value

text \<open>\<^verbatim>\<open>{...base, ...extra}\<close>: a key of \<open>extra\<close> replaces the value in place, a new key is appended.\<close>

definition spread :: "(string \<times> string) list \<Rightarrow> (string \<times> string) list \<Rightarrow> (string \<times> string) list" where
  "spread base extra =
     map (\<lambda>(k, v). (k, case map_of (rev extra) k of None \<Rightarrow> v | Some v' \<Rightarrow> v')) base
     @ filter (\<lambda>(k, v). k \<notin> fst ` set base) extra"

definition createResponse :: "int \<Rightarrow> js_value \<Rightarrow> (string \<times> string) list \<Rightarrow> ApiResponse" where
  "createResponse status data hdrs =
     \<lparr>statusCode = status,
      resp_headers =
        spread
          [(''Content-Type'', ''application/json''),
           (''Access-Control-Allow-Origin'', ''*''),
           (''Access-Control-Allow-Headers'', ''Content-Type,Authorization''),
           (''Access-Control-Allow-Methods'', ''GET,POST,PUT,DELETE,OPTIONS'')] hdrs,
      resp_body = data\<rparr>"

definition createErrorResponse :: "int \<Rightarrow> string \<Rightarrow> string \<Rightarrow> js_value \<Rightarrow> ApiResponse" where
  "createErrorResponse status err msg details =
     createResponse status
       (JObj [(''error'', JStr err), (''message'', JStr msg), (''details'', details)]) []"

definition parseRequestBody :: "'s runtime \<Rightarrow> APIGatewayProxyEvent \<Rightarrow> js_exn + json" where
  "parseRequestBody rt event =
     (case json_parse rt (case event_body event of
                            None \<Rightarrow> ''{}''
                          | Some s \<Rightarrow> if s = [] then ''{}'' else s) of
        Some v \<Rightarrow> Inr v
      | None \<Rightarrow> Inl (JsError ''Error'' ''Invalid JSON in request body''))"

definition getAuthHeader :: "APIGatewayProxyEvent \<Rightarrow> js_exn + string" where
  "getAuthHeader event =
     (let authHeader =
            (case event_headers event ''Authorization'' of
               Some h \<Rightarrow> if h \<noteq> [] then Some h else event_headers event ''authorization''
             | None \<Rightarrow> event_headers event ''authorization'')
      in case authHeader of
           None \<Rightarrow> Inl (JsError ''Error'' ''Authorization header is required'')
         | Some h \<Rightarrow>
             if h = [] then Inl (JsError ''Error'' ''Authorization header is required'')
             else if \<not> prefix ''Bearer '' h
               then Inl (JsError ''Error'' ''Authorization header must be a Bearer token'')
             else Inr (drop 7 h))"

text \<open>\<^verbatim>\<open>requiredFields.filter(field => !dataObj[field])\<close>, stopped by the first read that throws.\<close>

fun missing_fields :: "json \<Rightarrow> string list \<Rightarrow> js_exn + string list" where
  "missing_fields data [] = Inr []"
| "missing_fields data (field # names) =
     bindE (get_prop data field) (\<lambda>v.
     bindE (missing_fields data names) (\<lambda>rest.
       Inr (if \<not> truthy v then field # rest else rest)))"

text \<open>\<^verbatim>\<open>xs.join(sep)\<close> on an array of strings.\<close>

fun join :: "string \<Rightarrow> string list \<Rightarrow> string" where
  "join sep [] = []"
| "join sep [x] = x"
| "join sep (x # y # ys) = x @ sep @ join sep (y # ys)"

definition validateRequiredFields :: "json \<Rightarrow> string list \<Rightarrow> js_exn + unit" where
  "validateRequiredFields data requiredFields =
     bindE (missing_fields data requiredFields) (\<lambda>missingFields.
       if length missingFields > 0
         then Inl (JsError ''Error'' (''Missing required fields: '' @ join '', '' missingFields))
         else Inr ())"

section \<open>Token validation handler\<close>

text \<open>\<^verbatim>\<open>Math.floor(Date.now() / 1000)\<close>\<close>

definition currentTime :: "'s runtime \<Rightarrow> js_number" where
  "currentTime rt = Finite (of_int (date_now rt div 1000))"

text \<open>The \<^verbatim>\<open>try\<close> block of \<^verbatim>\<open>validate\<close>. A field read twice by the source is read once here:
  a read changes nothing and gives the same value.\<close>

definition validate_try :: "'s runtime \<Rightarrow> APIGatewayProxyEvent \<Rightarrow> js_exn + ApiResponse" where
  "validate_try rt event =
     bindE (parseRequestBody rt event) (\<lambda>body.
     bindE (get_prop body ''token'') (\<lambda>token.
       if \<not> truthy token
         then Inr (createErrorResponse 400 ''MISSING_TOKEN'' ''Token is required'' JUndefined)
       else
     bindE (jwt_decode rt token True) (\<lambda>decodedHeader.
       if \<not> truthy_json decodedHeader
         then Inr (createErrorResponse 401 ''INVALID_TOKEN'' ''Invalid token format'' JUndefined)
       else
     bindE (jwt_decode rt token False) (\<lambda>decoded.
       if \<not> truthy_json decoded
         then Inr (createErrorResponse 401 ''INVALID_TOKEN'' ''Invalid token'' JUndefined)
       else
     bindE (get_prop decoded ''exp'') (\<lambda>exp.
     bindE (js_less rt exp (currentTime rt)) (\<lambda>expired.
       if expired
         then Inr (createErrorResponse 401 ''TOKEN_EXPIRED'' ''Token has expired'' JUndefined)
       else
     bindE (get_prop decoded ''token_use'') (\<lambda>token_use.
       if token_use \<noteq> Json (JsonStr ''access'') \<and> token_use \<noteq> Json (JsonStr ''id'')
         then Inr (createErrorResponse 401 ''INVALID_TOKEN_TYPE'' ''Invalid token type'' JUndefined)
       else
     bindE (get_prop decoded ''sub'') (\<lambda>sub.
     bindE (get_prop decoded ''email'') (\<lambda>email.
     bindE (get_prop decoded ''iat'') (\<lambda>iat.
       Inr (createResponse 200
         (JObj [(''message'', JStr ''Token is valid''),
                (''data'', JObj [(''sub'', of_prop sub),
                                 (''email'', of_prop email),
                                 (''tokenType'', of_prop token_use),
                                 (''expiresAt'', of_prop exp),
                                 (''issuedAt'', of_prop iat)])]) [])))))))))))"

definition validate_catch :: "js_exn \<Rightarrow> js_exn + ApiResponse" where
  "validate_catch error =
     (case error of
        JsError name message \<Rightarrow>
          if name = ''JsonWebTokenError''
            then Inr (createErrorResponse 401 ''INVALID_TOKEN'' ''Invalid token format'' JUndefined)
          else if name = ''TokenExpiredError''
            then Inr (createErrorResponse 401 ''TOKEN_EXPIRED'' ''Token has expired'' JUndefined)
          else Inr (createErrorResponse 500 ''INTERNAL_ERROR'' ''Internal server error''
                      (JStr message))
      | NonError v \<Rightarrow>
          Inr (createErrorResponse 500 ''INTERNAL_ERROR'' ''Internal server error''
                 (JStr ''Unknown error'')))"

definition validate :: "'s runtime \<Rightarrow> APIGatewayProxyEvent \<Rightarrow> js_exn + ApiResponse" where
  "validate rt event =
     (case validate_try rt event of Inl error \<Rightarrow> validate_catch error | Inr r \<Rightarrow> Inr r)"

section \<open>User handlers\<close>

definition getUserFromToken :: "'s runtime \<Rightarrow> string \<Rightarrow> js_exn + js_prop \<times> js_prop" where
  "getUserFromToken rt token =
     bindE (jwt_decode rt (Json (JsonStr token)) False) (\<lambda>decoded.
     bindE (get_prop decoded ''sub'') (\<lambda>sub.
     bindE (get_prop decoded ''email'') (\<lambda>email.
     bindE (get_prop decoded ''username'') (\<lambda>username.
       Inr (js_or sub (Json (JsonStr [])),
            js_or email (js_or username (Json (JsonStr []))))))))"

definition opt_str :: "string option \<Rightarrow> js_value" where
  "opt_str x = (case x of None \<Rightarrow> JUndefined | Some s \<Rightarrow> JStr s)"


definition opt_num :: "int option \<Rightarrow> js_value" where
  "opt_num x = (case x of None \<Rightarrow> JUndefined | Some n \<Rightarrow> JNum (Finite (of_int n)))"



text \<open>The \<^verbatim>\<open>catch\<close> block that \<^verbatim>\<open>getUser\<close>, \<^verbatim>\<open>updateUser\<close> and \<^verbatim>\<open>deleteUser\<close> each have.\<close>

definition user_catch :: "js_exn \<Rightarrow> js_exn + ApiResponse" where
  "user_catch error =
     (if (case error of JsError name message \<Rightarrow> name = ''UserNotFoundException''
                      | NonError v \<Rightarrow> False)
        then Inr (createErrorResponse 404 ''USER_NOT_FOUND'' ''User not found'' JUndefined)
      else
        (let errorMessage =
               (case error of JsError name message \<Rightarrow> message | NonError v \<Rightarrow> ''Unknown error'')
         in Inr (createErrorResponse 500 ''INTERNAL_ERROR'' ''Internal server error''
                   (JStr errorMessage))))"



definition updateUser_try ::
  "'s runtime \<Rightarrow> APIGatewayProxyEvent \<Rightarrow> 's world \<Rightarrow> (js_exn + ApiResponse) \<times> 's world" where
  "updateUser_try rt event w0 =
     bindS (getAuthHeader event, w0) (\<lambda>token w.
     bindS (getUserFromToken rt token, w) (\<lambda>(sub, email) w.
     bindS (parseRequestBody rt event, w) (\<lambda>body w.
     bindS (get_prop body ''firstName'', w) (\<lambda>firstName w.
     bindS (get_prop body ''lastName'', w) (\<lambda>lastName w.
     bindS (get_prop body ''email'', w) (\<lambda>body_email w.
       (let userAttributes =
              (if firstName \<noteq> Undefined
                 then [JObj [(''Name'', JStr ''given_name''), (''Value'', of_prop firstName)]]
               else [])
            @ (if lastName \<noteq> Undefined
                 then [JObj [(''Name'', JStr ''family_name''), (''Value'', of_prop lastName)]]
               else [])
            @ (if body_email \<noteq> Undefined
                 then [JObj [(''Name'', JStr ''email''), (''Value'', of_prop body_email)]]
               else [])
        in if length userAttributes = 0
             then (Inr (createErrorResponse 400 ''NO_UPDATES'' ''No valid fields to update''
                          JUndefined), w)
           else
     bindS (client_send rt
              (AdminUpdateUserAttributesCommand
                 (JObj [(''UserPoolId'', USER_POOL_ID rt),
                        (''Username'', of_prop email),
                        (''UserAttributes'', JArr userAttributes)])) w)
       (\<lambda>response w.
          (Inr (createResponse 200 (JObj [(''message'', JStr ''User updated successfully'')]) []),
           w)))))))))"

definition updateUser ::
  "'s runtime \<Rightarrow> APIGatewayProxyEvent \<Rightarrow> 's world \<Rightarrow> (js_exn + ApiResponse) \<times> 's world" where
  "updateUser rt event w = try_catch (updateUser_try rt event w) user_catch"



definition changePassword_catch :: "js_exn \<Rightarrow> js_exn + ApiResponse" where
  "changePassword_catch error =
     (case error of
        JsError name message \<Rightarrow>
          if name = ''UserNotFoundException''
            then Inr (createErrorResponse 404 ''USER_NOT_FOUND'' ''User not found'' JUndefined)
          else if name = ''InvalidPasswordException''
            then Inr (createErrorResponse 400 ''INVALID_PASSWORD''
                        ''Password does not meet requirements'' JUndefined)
          else Inr (createErrorResponse 500 ''INTERNAL_ERROR'' ''Internal server error''
                      (JStr message))
      | NonError v \<Rightarrow>
          Inr (createErrorResponse 500 ''INTERNAL_ERROR'' ''Internal server error''
                 (JStr ''Unknown error'')))"

definition changePassword_try ::
  "'s runtime \<Rightarrow> APIGatewayProxyEvent \<Rightarrow> 's world \<Rightarrow> (js_exn + ApiResponse) \<times> 's world" where
  "changePassword_try rt event w0 =
     bindS (getAuthHeader event, w0) (\<lambda>token w.
     bindS (getUserFromToken rt token, w) (\<lambda>(sub, email) w.
     bindS (parseRequestBody rt event, w) (\<lambda>body w.
     bindS (validateRequiredFields body [''oldPassword'', ''newPassword''], w) (\<lambda>u w.
     bindS (get_prop body ''newPassword'', w) (\<lambda>newPassword w.
     bindS (client_send rt
              (AdminSetUserPasswordCommand
                 (JObj [(''UserPoolId'', USER_POOL_ID rt),
                        (''Username'', of_prop email),
                        (''Password'', of_prop newPassword),
                        (''Permanent'', JBool True)])) w)
       (\<lambda>response w.
          (Inr (createResponse 200
                  (JObj [(''message'', JStr ''Password changed successfully'')]) []), w)))))))"

definition changePassword ::
  "'s runtime \<Rightarrow> APIGatewayProxyEvent \<Rightarrow> 's world \<Rightarrow> (js_exn + ApiResponse) \<times> 's world" where
  "changePassword rt event w = try_catch (changePassword_try rt event w) changePassword_catch"

section \<open>Authentication handlers\<close>

definition login_catch :: "js_exn \<Rightarrow> js_exn + ApiResponse" where
  "login_catch error =
     (case error of
        JsError name message \<Rightarrow>
          if name = ''UserNotConfirmedException''
            then Inr (createErrorResponse 400 ''USER_NOT_CONFIRMED'' ''User email not confirmed''
                        JUndefined)
          else if name = ''NotAuthorizedException''
            then Inr (createErrorResponse 401 ''INVALID_CREDENTIALS'' ''Invalid email or password''
                        JUndefined)
          else if name = ''UserNotFoundException''
            then Inr (createErrorResponse 404 ''USER_NOT_FOUND'' ''User not found'' JUndefined)
          else Inr (createErrorResponse 500 ''INTERNAL_ERROR'' ''Internal server error''
                      (JStr message))
      | NonError v \<Rightarrow>
          Inr (createErrorResponse 500 ''INTERNAL_ERROR'' ''Internal server error''
                 (JStr ''Unknown error'')))"

definition login_try ::
  "'s runtime \<Rightarrow> APIGatewayProxyEvent \<Rightarrow> 's world \<Rightarrow> (js_exn + ApiResponse) \<times> 's world" where
  "login_try rt event w0 =
     bindS (parseRequestBody rt event, w0) (\<lambda>body w.
     bindS (validateRequiredFields body [''email'', ''password''], w) (\<lambda>u w.
     bindS (get_prop body ''email'', w) (\<lambda>email w.
     bindS (get_prop body ''password'', w) (\<lambda>password w.
     bindS (client_send rt
              (AdminInitiateAuthCommand
                 (JObj [(''UserPoolId'', USER_POOL_ID rt),
                        (''ClientId'', USER_POOL_CLIENT_ID rt),
                        (''AuthFlow'', JStr ''ADMIN_NO_SRP_AUTH''),
                        (''AuthParameters'',
                           JObj [(''USERNAME'', of_prop email),
                                 (''PASSWORD'', of_prop password)])])) w)
       (\<lambda>response w.
          case AuthenticationResult response of
            None \<Rightarrow>
              (Inr (createErrorResponse 401 ''AUTHENTICATION_FAILED'' ''Invalid credentials''
                      JUndefined), w)
          | Some result \<Rightarrow>
              (Inr (createResponse 200
                      (JObj [(''message'', JStr ''Login successful''),
                             (''data'',
                                JObj [(''accessToken'', opt_str (AccessToken result)),
                                      (''idToken'', opt_str (IdToken result)),
                                      (''refreshToken'', opt_str (RefreshToken result)),
                                      (''expiresIn'', opt_num (ExpiresIn result)),
                                      (''tokenType'', opt_str (TokenType result))])]) []),
               w))))))"

definition login ::
  "'s runtime \<Rightarrow> APIGatewayProxyEvent \<Rightarrow> 's world \<Rightarrow> (js_exn + ApiResponse) \<times> 's world" where
  "login rt event w = try_catch (login_try rt event w) login_catch"

definition register_catch :: "js_exn \<Rightarrow> js_exn + ApiResponse" where
  "register_catch error =
     (case error of
        JsError name message \<Rightarrow>
          if name = ''UsernameExistsException''
            then Inr (createErrorResponse 409 ''USER_EXISTS'' ''User already exists'' JUndefined)
          else if name = ''InvalidPasswordException''
            then Inr (createErrorResponse 400 ''INVALID_PASSWORD''
                        ''Password does not meet requirements'' JUndefined)
          else Inr (createErrorResponse 500 ''INTERNAL_ERROR'' ''Internal server error''
                      (JStr message))
      | NonError v \<Rightarrow>
          Inr (createErrorResponse 500 ''INTERNAL_ERROR'' ''Internal server error''
                 (JStr ''Unknown error'')))"

definition register_try ::
  "'s runtime \<Rightarrow> APIGatewayProxyEvent \<Rightarrow> 's world \<Rightarrow> (js_exn + ApiResponse) \<times> 's world" where
  "register_try rt event w0 =
     bindS (parseRequestBody rt event, w0) (\<lambda>body w.
     bindS (validateRequiredFields body [''email'', ''password''], w) (\<lambda>u w.
     bindS (get_prop body ''email'', w) (\<lambda>email w.
     bindS (get_prop body ''password'', w) (\<lambda>password w.
     bindS (get_prop body ''firstName'', w) (\<lambda>firstName w.
     bindS (get_prop body ''lastName'', w) (\<lambda>lastName w.
       (let userAttributes =
              [JObj [(''Name'', JStr ''email''), (''Value'', of_prop email)],
               JObj [(''Name'', JStr ''email_verified''), (''Value'', JStr ''true'')]]
            @ (if truthy firstName
                 then [JObj [(''Name'', JStr ''given_name''), (''Value'', of_prop firstName)]]
               else [])
            @ (if truthy lastName
                 then [JObj [(''Name'', JStr ''family_name''), (''Value'', of_prop lastName)]]
               else [])
        in
     bindS (client_send rt
              (AdminCreateUserCommand
                 (JObj [(''UserPoolId'', USER_POOL_ID rt),
                        (''Username'', of_prop email),
                        (''UserAttributes'', JArr userAttributes),
                        (''MessageAction'', JStr ''SUPPRESS''),
                        (''TemporaryPassword'', of_prop password)])) w)
       (\<lambda>created w.
     bindS (client_send rt
              (AdminSetUserPasswordCommand
                 (JObj [(''UserPoolId'', USER_POOL_ID rt),
                        (''Username'', of_prop email),
                        (''Password'', of_prop password),
                        (''Permanent'', JBool True)])) w)
       (\<lambda>response w.
          (Inr (createResponse 201
                  (JObj [(''message'', JStr ''User registered successfully''),
                         (''data'', JObj [(''email'', of_prop email)])]) []), w))))))))))"

definition register ::
  "'s runtime \<Rightarrow> APIGatewayProxyEvent \<Rightarrow> 's world \<Rightarrow> (js_exn + ApiResponse) \<times> 's world" where
  "register rt event w = try_catch (register_try rt event w) register_catch"

definition refreshToken_catch :: "js_exn \<Rightarrow> js_exn + ApiResponse" where
  "refreshToken_catch error =
     (case error of
        JsError name message \<Rightarrow>
          if name = ''NotAuthorizedException''
            then Inr (createErrorResponse 401 ''INVALID_REFRESH_TOKEN''
                        ''Invalid or expired refresh token'' JUndefined)
          else Inr (createErrorResponse 500 ''INTERNAL_ERROR'' ''Internal server error''
                      (JStr message))
      | NonError v \<Rightarrow>
          Inr (createErrorResponse 500 ''INTERNAL_ERROR'' ''Internal server error''
                 (JStr ''Unknown error'')))"

definition refreshToken_try ::
  "'s runtime \<Rightarrow> APIGatewayProxyEvent \<Rightarrow> 's world \<Rightarrow> (js_exn + ApiResponse) \<times> 's world" where
  "refreshToken_try rt event w0 =
     bindS (parseRequestBody rt event, w0) (\<lambda>body w.
     bindS (validateRequiredFields body [''refreshToken''], w) (\<lambda>u w.
     bindS (get_prop body ''refreshToken'', w) (\<lambda>refresh w.
     bindS (client_send rt
              (AdminInitiateAuthCommand
                 (JObj [(''UserPoolId'', USER_POOL_ID rt),
                        (''ClientId'', USER_POOL_CLIENT_ID rt),
                        (''AuthFlow'', JStr ''REFRESH_TOKEN_AUTH''),
                        (''AuthParameters'', JObj [(''REFRESH_TOKEN'', of_prop refresh)])])) w)
       (\<lambda>response w.
          case AuthenticationResult response of
            None \<Rightarrow>
              (Inr (createErrorResponse 401 ''REFRESH_FAILED'' ''Invalid refresh token''
                      JUndefined), w)
          | Some result \<Rightarrow>
              (Inr (createResponse 200
                      (JObj [(''message'', JStr ''Token refreshed successfully''),
                             (''data'',
                                JObj [(''accessToken'', opt_str (AccessToken result)),
                                      (''idToken'', opt_str (IdToken result)),
                                      (''expiresIn'', opt_num (ExpiresIn result)),
                                      (''tokenType'', opt_str (TokenType result))])]) []),
               w)))))"

definition refreshToken ::
  "'s runtime \<Rightarrow> APIGatewayProxyEvent \<Rightarrow> 's world \<Rightarrow> (js_exn + ApiResponse) \<times> 's world" where
  "refreshToken rt event w = try_catch (refreshToken_try rt event w) refreshToken_catch"

definition logout_catch :: "js_exn \<Rightarrow> js_exn + ApiResponse" where
  "logout_catch error =
     (let errorMessage =
            (case error of JsError name message \<Rightarrow> message | NonError v \<Rightarrow> ''Unknown error'')
      in Inr (createErrorResponse 500 ''INTERNAL_ERROR'' ''Internal server error''
                (JStr errorMessage)))"

text \<open>\<^verbatim>\<open>logout\<close> takes no event.\<close>

definition logout :: "'s world \<Rightarrow> (js_exn + ApiResponse) \<times> 's world" where
  "logout w =
     try_catch
       (Inr (createResponse 200 (JObj [(''message'', JStr ''Logout successful'')]) []), w)
       logout_catch"

section \<open>Notions used to state the properties\<close>

text \<open>
  The envelopes written out: the status, the fixed headers and the document of the body.
\<close>

abbreviation envelope :: "int \<Rightarrow> js_value \<Rightarrow> ApiResponse" where
  "envelope status document \<equiv>
     \<lparr>statusCode = status,
      resp_headers =
        [(''Content-Type'', ''application/json''),
         (''Access-Control-Allow-Origin'', ''*''),
         (''Access-Control-Allow-Headers'', ''Content-Type,Authorization''),
         (''Access-Control-Allow-Methods'', ''GET,POST,PUT,DELETE,OPTIONS'')],
      resp_body = document\<rparr>"

abbreviation error_envelope :: "int \<Rightarrow> string \<Rightarrow> string \<Rightarrow> js_value \<Rightarrow> ApiResponse" where
  "error_envelope status code message details \<equiv>
     envelope status
       (JObj [(''error'', JStr code), (''message'', JStr message), (''details'', details)])"

abbreviation internal_error :: "string \<Rightarrow> ApiResponse" where
  "internal_error details \<equiv>
     error_envelope 500 ''INTERNAL_ERROR'' ''Internal server error'' (JStr details)"

text \<open>What a read of a field gives, \<^verbatim>\<open>undefined\<close> where the read throws.\<close>

definition field :: "json \<Rightarrow> string \<Rightarrow> js_prop" where
  "field v k = (case get_prop v k of Inl e \<Rightarrow> Undefined | Inr x \<Rightarrow> x)"

text \<open>The value is an object that declares the field.\<close>

definition has_field :: "json \<Rightarrow> string \<Rightarrow> bool" where
  "has_field v k = (case v of JsonObj kvs \<Rightarrow> k \<in> fst ` set kvs | _ \<Rightarrow> False)"

text \<open>A named field is absent from the object or holds one of the falsy values.\<close>

definition field_missing :: "(string \<times> json) list \<Rightarrow> string \<Rightarrow> bool" where
  "field_missing kvs name =
     (case map_of kvs name of
        None \<Rightarrow> True
      | Some v \<Rightarrow> v \<in> {JsonNull, JsonBool False, JsonNum (Finite 0), JsonNum NaN, JsonStr []})"

text \<open>A name that is no member of any value: no length, no index, nothing inherited.\<close>

definition plain_name :: "string \<Rightarrow> bool" where
  "plain_name k =
     (k \<noteq> ''length'' \<and> index_of k = None
      \<and> k \<notin> set (object_prototype_names @ boolean_prototype_names @ number_prototype_names
                    @ string_prototype_names @ array_prototype_names))"

text \<open>The member of a document under a name.\<close>

definition doc_field :: "js_value \<Rightarrow> string \<Rightarrow> js_value" where
  "doc_field v k =
     (case v of
        JObj kvs \<Rightarrow> (case map_of kvs k of None \<Rightarrow> JUndefined | Some x \<Rightarrow> x)
      | _ \<Rightarrow> JUndefined)"


definition missing_credential :: js_exn where
  "missing_credential = JsError ''Error'' ''Authorization header is required''"

definition malformed_credential :: js_exn where
  "malformed_credential = JsError ''Error'' ''Authorization header must be a Bearer token''"

definition malformed_input :: js_exn where
  "malformed_input = JsError ''Error'' ''Invalid JSON in request body''"

text \<open>The authorization entry of a header set: \<^verbatim>\<open>Authorization\<close>, or \<^verbatim>\<open>authorization\<close> when the
  first is absent or empty.\<close>

definition authorization_value :: "APIGatewayProxyEvent \<Rightarrow> string option" where
  "authorization_value event =
     (if event_headers event ''Authorization'' \<in> {None, Some []}
        then event_headers event ''authorization''
      else event_headers event ''Authorization'')"

definition email_verified_attribute :: js_value where
  "email_verified_attribute =
     JObj [(''Name'', JStr ''email_verified''), (''Value'', JStr ''true'')]"







section \<open>A runtime to run the handlers on\<close>

text \<open>
  Decoded payloads by token, parsed documents by body, a clock at 1700000000 seconds, and a
  provider that counts the commands it receives, knows no user and loses the connection on
  a deletion.
\<close>

definition example_payloads :: "(string \<times> json) list" where
  "example_payloads =
     [(''expired'',
         JsonObj [(''sub'', JsonStr ''user-1''), (''email'', JsonStr ''ann@example.com''),
                  (''iat'', JsonNum (Finite 1600000000)), (''exp'', JsonNum (Finite 1600003600)),
                  (''token_use'', JsonStr ''id'')]),
      (''refresh'',
         JsonObj [(''sub'', JsonStr ''user-1''), (''email'', JsonStr ''ann@example.com''),
                  (''iat'', JsonNum (Finite 1699999000)), (''exp'', JsonNum (Finite 1800000000)),
                  (''token_use'', JsonStr ''refresh'')]),
      (''identity'',
         JsonObj [(''sub'', JsonStr ''user-1''), (''email'', JsonStr ''ann@example.com''),
                  (''iat'', JsonNum (Finite 1699999000)), (''exp'', JsonNum (Finite 1800000000)),
                  (''token_use'', JsonStr ''id'')]),
      (''no-exp'',
         JsonObj [(''sub'', JsonStr ''user-1''), (''token_use'', JsonStr ''access'')]),
      (''object-exp'',
         JsonObj [(''sub'', JsonStr ''user-1''), (''email'', JsonStr ''ann@example.com''),
                  (''iat'', JsonNum (Finite 1699999000)),
                  (''exp'', JsonObj [(''toString'', JsonNull)]),
                  (''token_use'', JsonStr ''id'')])]"

definition example_bodies :: "(string \<times> json) list" where
  \<open>example_bodies =
     [(''{}'', JsonObj []),
      (''null'', JsonNull),
      (''{"token":"expired"}'', JsonObj [(''token'', JsonStr ''expired'')]),
      (''{"token":"refresh"}'', JsonObj [(''token'', JsonStr ''refresh'')]),
      (''{"token":"identity"}'', JsonObj [(''token'', JsonStr ''identity'')]),
      (''{"token":"no-exp"}'', JsonObj [(''token'', JsonStr ''no-exp'')]),
      (''{"token":"object-exp"}'', JsonObj [(''token'', JsonStr ''object-exp'')]),
      (''{"email":"ann@example.com","password":"Secret#1"}'',
         JsonObj [(''email'', JsonStr ''ann@example.com''),
                  (''password'', JsonStr ''Secret#1'')])]\<close>

definition empty_output :: command_output where
  "empty_output =
     \<lparr>AuthenticationResult = None, Username = None, UserAttributes = None, Enabled = None,
      UserStatus = None, UserCreateDate = None, UserLastModifiedDate = None\<rparr>"

definition example_runtime :: "nat runtime" where
  "example_runtime =
     \<lparr>json_parse = map_of example_bodies,
      jwt_decode = (\<lambda>token complete.
        case token of
          Json (JsonStr t) \<Rightarrow>
            (case map_of example_payloads t of
               None \<Rightarrow> Inr JsonNull
             | Some payload \<Rightarrow>
                 Inr (if complete
                        then JsonObj [(''header'', JsonObj [(''alg'', JsonStr ''RS256'')]),
                                      (''payload'', payload),
                                      (''signature'', JsonStr ''c2ln'')]
                      else payload))
        | _ \<Rightarrow> Inr JsonNull),
      string_to_number = (\<lambda>s. if s = [] then Finite 0 else NaN),
      number_to_string = (\<lambda>n. ''NaN''),
      date_now = 1700000000000,
      USER_POOL_ID = JStr ''pool-1'',
      USER_POOL_CLIENT_ID = JStr ''client-1'',
      cognito_send = (\<lambda>cmd n.
        (case cmd of
           AdminGetUserCommand input \<Rightarrow>
             Inl (JsError ''UserNotFoundException'' ''User does not exist.'')
         | AdminDeleteUserCommand input \<Rightarrow> Inl (NonError (JStr ''socket hang up''))
         | _ \<Rightarrow> Inr empty_output,
         Suc n))\<rparr>"

definition example_world :: "nat world" where
  "example_world = \<lparr>provider = 0, sent = []\<rparr>"

definition request :: "(string \<times> string) list \<Rightarrow> string option \<Rightarrow> APIGatewayProxyEvent" where
  "request hs b = \<lparr>event_body = b, event_headers = map_of hs\<rparr>"

section \<open>Reading fields\<close>

lemma get_prop_truthy: "truthy_json v \<Longrightarrow> get_prop v k = Inr (field v k)"
  by (cases v) (simp_all add: field_def)

lemma get_prop_not_null: "v \<noteq> JsonNull \<Longrightarrow> get_prop v k = Inr (field v k)"
  by (cases v) (simp_all add: field_def)

lemma truthy_falsy_values:
  "(\<not> truthy_json v)
     = (v \<in> {JsonNull, JsonBool False, JsonNum (Finite 0), JsonNum NaN, JsonStr []})"
  by (cases v) auto

lemma field_object:
  "field (JsonObj kvs) k = (case map_of kvs k of Some v \<Rightarrow> Json v | None \<Rightarrow> inherited [] k)"
  by (simp add: field_def)

lemma field_own_name:
  "name \<notin> set object_prototype_names
     \<Longrightarrow> (\<not> truthy (field (JsonObj kvs) name)) = field_missing kvs name"
  by (auto simp: field_object field_missing_def inherited_def truthy_falsy_values
        split: option.splits)

lemma field_inherited_name:
  "name \<in> set object_prototype_names \<Longrightarrow> map_of kvs name = None
     \<Longrightarrow> field (JsonObj kvs) name = Native name"
  by (simp add: field_object inherited_def)

lemma missing_fields_not_null:
  "data \<noteq> JsonNull
     \<Longrightarrow> missing_fields data names = Inr (filter (\<lambda>name. \<not> truthy (field data name)) names)"
  by (induction names) (simp_all add: bindE_def get_prop_not_null)

lemma missing_fields_object:
  "set names \<inter> set object_prototype_names = {}
     \<Longrightarrow> missing_fields (JsonObj kvs) names = Inr (filter (field_missing kvs) names)"
proof -
  assume "set names \<inter> set object_prototype_names = {}"
  then have "\<And>x. x \<in> set names \<Longrightarrow> x \<notin> set object_prototype_names"
    by blast
  then have "filter (\<lambda>name. \<not> truthy (field (JsonObj kvs) name)) names
               = filter (field_missing kvs) names"
    by (intro filter_cong refl field_own_name)
  then show ?thesis by (simp add: missing_fields_not_null)
qed

lemma validateRequiredFields_missing:
  assumes "set names \<inter> set object_prototype_names = {}"
    and "\<exists>name \<in> set names. field_missing kvs name"
  shows "validateRequiredFields (JsonObj kvs) names =
     Inl (JsError ''Error''
            (''Missing required fields: '' @ join '', '' (filter (field_missing kvs) names)))"
  using assms
  by (auto simp add: validateRequiredFields_def missing_fields_object bindE_def
        filter_empty_conv)

section \<open>Request helpers\<close>

text \<open>
  C6, as the code has it. With no authorization entry, or an empty one, \<^verbatim>\<open>getAuthHeader\<close>
  fails with the missing-credential error; with a non-empty entry that does not start with
  \<^verbatim>\<open>Bearer \<close> it fails with the malformed-credential error; otherwise it returns what follows
  the seven characters of the prefix.
\<close>

theorem getAuthHeader_outcomes:
  "(authorization_value event \<in> {None, Some []}
      \<longrightarrow> getAuthHeader event = Inl missing_credential)
   \<and> (\<forall>h. authorization_value event = Some h \<and> h \<noteq> [] \<and> \<not> prefix ''Bearer '' h
          \<longrightarrow> getAuthHeader event = Inl malformed_credential)
   \<and> (\<forall>t. authorization_value event = Some (''Bearer '' @ t)
          \<longrightarrow> getAuthHeader event = Inr t)"
  by (auto simp: getAuthHeader_def authorization_value_def malformed_credential_def
        missing_credential_def Let_def split: option.splits)

theorem getAuthHeader_outcomes_witness:
  "getAuthHeader (request [] None) = Inl missing_credential
   \<and> getAuthHeader (request [(''authorization'', ''Basic abc'')] None)
       = Inl malformed_credential
   \<and> getAuthHeader (request [(''Authorization'', ''Bearer abc'')] None) = Inr ''abc''"
  using getAuthHeader_outcomes [of "request [] None"]
        getAuthHeader_outcomes [of "request [(''authorization'', ''Basic abc'')] None"]
        getAuthHeader_outcomes [of "request [(''Authorization'', ''Bearer abc'')] None"]
  by (simp add: authorization_value_def request_def)

text \<open>
  The claim C6 as it is written fails on a header set whose authorization entry is the empty
  string: the entry is there and does not start with the prefix, and the error is the
  missing-credential one.
\<close>

theorem getAuthHeader_empty_entry:
  "event_headers (request [(''Authorization'', [])] None) ''Authorization'' = Some []
   \<and> \<not> prefix ''Bearer '' []
   \<and> getAuthHeader (request [(''Authorization'', [])] None) = Inl missing_credential
   \<and> getAuthHeader (request [(''Authorization'', [])] None) \<noteq> Inl malformed_credential"
  by (simp add: getAuthHeader_def request_def malformed_credential_def missing_credential_def)

text \<open>
  C7. A body that \<^verbatim>\<open>JSON.parse\<close> accepts gives the parsed structure, a body that it rejects
  gives the malformed-input error, and an absent or empty body gives the empty structure.
\<close>

theorem parseRequestBody_outcomes:
  "(\<forall>s v. event_body event = Some s \<and> s \<noteq> [] \<and> json_parse rt s = Some v
           \<longrightarrow> parseRequestBody rt event = Inr v)
   \<and> (\<forall>s. event_body event = Some s \<and> s \<noteq> [] \<and> json_parse rt s = None
           \<longrightarrow> parseRequestBody rt event = Inl malformed_input)
   \<and> (event_body event \<in> {None, Some []} \<and> json_parse rt ''{}'' = Some (JsonObj [])
           \<longrightarrow> parseRequestBody rt event = Inr (JsonObj []))"
  by (auto simp: parseRequestBody_def malformed_input_def)

theorem parseRequestBody_outcomes_witness:
  \<open>parseRequestBody example_runtime (request [] (Some ''{"token":"identity"}''))
     = Inr (JsonObj [(''token'', JsonStr ''identity'')])
   \<and> parseRequestBody example_runtime (request [] (Some ''{"token":'')) = Inl malformed_input
   \<and> parseRequestBody example_runtime (request [] None) = Inr (JsonObj [])
   \<and> parseRequestBody example_runtime (request [] (Some [])) = Inr (JsonObj [])\<close>
  using parseRequestBody_outcomes
          [of \<open>request [] (Some ''{"token":"identity"}'')\<close> example_runtime]
        parseRequestBody_outcomes [of \<open>request [] (Some ''{"token":'')\<close> example_runtime]
        parseRequestBody_outcomes [of "request [] None" example_runtime]
        parseRequestBody_outcomes [of "request [] (Some [])" example_runtime]
  by (simp add: request_def example_runtime_def example_bodies_def)

text \<open>
  C8, as the code has it. On every parsed value but \<^verbatim>\<open>null\<close>, \<^verbatim>\<open>validateRequiredFields\<close>
  succeeds when every named property that it reads is truthy, and otherwise its error lists,
  in the order of the names, every name whose property is falsy, not only the first. A
  property is read from the fields of the data and, failing that, from what the data
  inherits. So on an object a name that no prototype has is listed exactly when the field is
  absent or falsy, while an absent field under an inherited name such as \<^verbatim>\<open>toString\<close> reads
  as the inherited member, is truthy and is not listed. On \<^verbatim>\<open>null\<close> the first read throws a
  \<^verbatim>\<open>TypeError\<close>.
\<close>

theorem validateRequiredFields_reports_all:
  "(data \<noteq> JsonNull \<longrightarrow>
      validateRequiredFields data names =
        (if \<forall>name \<in> set names. truthy (field data name) then Inr ()
         else Inl (JsError ''Error''
                (''Missing required fields: ''
                   @ join '', '' (filter (\<lambda>name. \<not> truthy (field data name)) names)))))
   \<and> (\<forall>kvs name. data = JsonObj kvs \<and> name \<notin> set object_prototype_names
         \<longrightarrow> (\<not> truthy (field data name)) = field_missing kvs name)
   \<and> (\<forall>kvs name. data = JsonObj kvs \<and> name \<in> set object_prototype_names
                   \<and> map_of kvs name = None
         \<longrightarrow> truthy (field data name))
   \<and> (data = JsonNull \<and> names \<noteq> []
         \<longrightarrow> validateRequiredFields data names = Inl (type_error (hd names)))"
proof (intro conjI impI allI)
  assume "data \<noteq> JsonNull"
  then show "validateRequiredFields data names =
        (if \<forall>name \<in> set names. truthy (field data name) then Inr ()
         else Inl (JsError ''Error''
                (''Missing required fields: ''
                   @ join '', '' (filter (\<lambda>name. \<not> truthy (field data name)) names))))"
    by (simp add: validateRequiredFields_def missing_fields_not_null bindE_def
          filter_empty_conv)
next
  fix kvs name
  assume "data = JsonObj kvs \<and> name \<notin> set object_prototype_names"
  then show "(\<not> truthy (field data name)) = field_missing kvs name"
    by (simp add: field_own_name)
next
  fix kvs name
  assume "data = JsonObj kvs \<and> name \<in> set object_prototype_names \<and> map_of kvs name = None"
  then show "truthy (field data name)"
    by (simp add: field_inherited_name)
next
  assume "data = JsonNull \<and> names \<noteq> []"
  then show "validateRequiredFields data names = Inl (type_error (hd names))"
    by (cases names) (simp_all add: validateRequiredFields_def bindE_def)
qed

theorem validateRequiredFields_reports_all_witness:
  "validateRequiredFields (JsonObj []) [''a'', ''b'']
     = Inl (JsError ''Error'' ''Missing required fields: a, b'')
   \<and> validateRequiredFields
        (JsonObj [(''a'', JsonStr ''x''), (''b'', JsonNum (Finite 0)), (''c'', JsonNull)])
        [''a'', ''b'', ''c'']
     = Inl (JsError ''Error'' ''Missing required fields: b, c'')
   \<and> validateRequiredFields (JsonObj [(''a'', JsonStr ''x''), (''b'', JsonBool True)])
        [''a'', ''b'', ''valueOf'']
     = Inr ()
   \<and> validateRequiredFields (JsonStr ''abc'') [''length'', ''1'', ''sub'', ''email'']
     = Inl (JsError ''Error'' ''Missing required fields: email'')
   \<and> validateRequiredFields JsonNull [''a'', ''b''] = Inl (type_error ''a'')"
  using validateRequiredFields_reports_all [of "JsonObj []" "[''a'', ''b'']"]
        validateRequiredFields_reports_all
          [of "JsonObj [(''a'', JsonStr ''x''), (''b'', JsonNum (Finite 0)), (''c'', JsonNull)]"
              "[''a'', ''b'', ''c'']"]
        validateRequiredFields_reports_all
          [of "JsonObj [(''a'', JsonStr ''x''), (''b'', JsonBool True)]"
              "[''a'', ''b'', ''valueOf'']"]
        validateRequiredFields_reports_all
          [of "JsonStr ''abc''" "[''length'', ''1'', ''sub'', ''email'']"]
        validateRequiredFields_reports_all [of JsonNull "[''a'', ''b'']"]
  by (simp add: field_def inherited_def index_of_def object_prototype_names_def
        string_prototype_names_def)

text \<open>
  The claim C8 as it is written fails on the empty object with the name \<^verbatim>\<open>toString\<close>: the
  field is absent and the call succeeds. It fails on \<^verbatim>\<open>null\<close> too, where the error is the
  \<^verbatim>\<open>TypeError\<close> of the first read and lists no field.
\<close>

theorem validateRequiredFields_inherited_name:
  "field_missing [] ''toString''
   \<and> validateRequiredFields (JsonObj []) [''toString''] = Inr ()
   \<and> validateRequiredFields JsonNull [''a'', ''b''] = Inl (type_error ''a'')
   \<and> validateRequiredFields JsonNull [''a'', ''b'']
       \<noteq> Inl (JsError ''Error'' ''Missing required fields: a, b'')"
  by (simp add: field_missing_def validateRequiredFields_def bindE_def inherited_def
        object_prototype_names_def type_error_def)

lemma field_plain_name:
  "plain_name k \<Longrightarrow> \<not> has_field v k \<Longrightarrow> v \<noteq> JsonNull \<Longrightarrow> field v k = Undefined"
  by (cases v)
     (auto simp: plain_name_def field_def has_field_def inherited_def map_of_eq_None_iff
        split: option.splits)

lemma plain_names:
  "plain_name ''exp''" "plain_name ''firstName''" "plain_name ''lastName''"
  "plain_name ''email''"
  by (simp_all add: plain_name_def index_of_def object_prototype_names_def
        boolean_prototype_names_def number_prototype_names_def string_prototype_names_def
        array_prototype_names_def)

lemma required_names_own:
  "set [''email'', ''password''] \<inter> set object_prototype_names = {}"
  "set [''refreshToken''] \<inter> set object_prototype_names = {}"
  "set [''oldPassword'', ''newPassword''] \<inter> set object_prototype_names = {}"
  by (simp_all add: object_prototype_names_def)

section \<open>Token validation\<close>

lemma join_elements_throws:
  "to_string rt v = Inl e \<Longrightarrow> e = conversion_error"
  "join_elements rt xs = Inl e \<Longrightarrow> e = conversion_error"
  by (induction rt v and rt xs arbitrary: e and e rule: to_string_join_elements.induct)
     (auto simp: bindE_def split: if_splits sum.splits)

lemma to_number_throws: "to_number rt x = Inl e \<Longrightarrow> e = conversion_error"
  by (cases "(rt, x)" rule: to_number.cases)
     (auto simp: bindE_def split: if_splits sum.splits dest: join_elements_throws(2))

lemma to_number_throws_only:
  "to_number rt x = Inl e \<Longrightarrow>
     (\<exists>xs. x = Json (JsonArr xs)) \<or> (\<exists>kvs. x = Json (JsonObj kvs) \<and> map_of kvs ''toString'' \<noteq> None)"
  by (cases "(rt, x)" rule: to_number.cases) (auto split: if_splits)

text \<open>What \<^verbatim>\<open>validate\<close> returns once the token has decoded to a payload.\<close>

lemma validate_decoded:
  assumes "parseRequestBody rt event = Inr body"
    and "get_prop body ''token'' = Inr token" and "truthy token"
    and "jwt_decode rt token True = Inr decodedHeader" and "truthy_json decodedHeader"
    and "jwt_decode rt token False = Inr decoded" and "truthy_json decoded"
  shows "validate rt event =
     Inr (case to_number rt (field decoded ''exp'') of
            Inl error \<Rightarrow> internal_error ''Cannot convert object to primitive value''
          | Inr n \<Rightarrow>
              if num_less n (currentTime rt)
                then error_envelope 401 ''TOKEN_EXPIRED'' ''Token has expired'' JUndefined
              else if field decoded ''token_use'' \<noteq> Json (JsonStr ''access'')
                      \<and> field decoded ''token_use'' \<noteq> Json (JsonStr ''id'')
                then error_envelope 401 ''INVALID_TOKEN_TYPE'' ''Invalid token type'' JUndefined
              else envelope 200
                     (JObj [(''message'', JStr ''Token is valid''),
                            (''data'',
                               JObj [(''sub'', of_prop (field decoded ''sub'')),
                                     (''email'', of_prop (field decoded ''email'')),
                                     (''tokenType'', of_prop (field decoded ''token_use'')),
                                     (''expiresAt'', of_prop (field decoded ''exp'')),
                                     (''issuedAt'', of_prop (field decoded ''iat''))])]))"
proof (cases "to_number rt (field decoded ''exp'')")
  case (Inl e)
  then have "e = conversion_error" by (rule to_number_throws)
  with Inl assms show ?thesis
    by (simp add: validate_def validate_try_def bindE_def get_prop_truthy js_less_def
          validate_catch_def conversion_error_def createErrorResponse_def createResponse_def
          spread_def)
next
  case (Inr n)
  with assms show ?thesis
    by (simp add: validate_def validate_try_def bindE_def get_prop_truthy js_less_def
          createErrorResponse_def createResponse_def spread_def)
qed

text \<open>
  C1, as the code has it. When the token of the request decodes to a payload whose \<^verbatim>\<open>exp\<close>
  converts to a number: if \<^verbatim>\<open>exp\<close> is strictly less than the current time, \<^verbatim>\<open>validate\<close>
  returns the TOKEN_EXPIRED error with status 401, whatever \<^verbatim>\<open>token_use\<close> is; otherwise, if
  \<^verbatim>\<open>token_use\<close> is neither \<^verbatim>\<open>access\<close> nor \<^verbatim>\<open>id\<close>, the INVALID_TOKEN_TYPE error with status
  401; otherwise the 200 envelope whose data holds the payload's subject, email, token use,
  expiry and issue time. An \<^verbatim>\<open>exp\<close> that is a number of seconds converts to itself and is
  compared with the current time in whole seconds. The conversion fails only for an array or
  for an object with a \<^verbatim>\<open>toString\<close> field of its own, and then \<^verbatim>\<open>validate\<close> returns the
  INTERNAL_ERROR envelope with status 500.
\<close>

theorem validate_expiry_then_token_use:
  assumes "parseRequestBody rt event = Inr body"
    and "get_prop body ''token'' = Inr token" and "truthy token"
    and "jwt_decode rt token True = Inr decodedHeader" and "truthy_json decodedHeader"
    and "jwt_decode rt token False = Inr decoded" and "truthy_json decoded"
  shows "validate rt event =
     Inr (case to_number rt (field decoded ''exp'') of
            Inl error \<Rightarrow> internal_error ''Cannot convert object to primitive value''
          | Inr n \<Rightarrow>
              if num_less n (currentTime rt)
                then error_envelope 401 ''TOKEN_EXPIRED'' ''Token has expired'' JUndefined
              else if field decoded ''token_use'' \<noteq> Json (JsonStr ''access'')
                      \<and> field decoded ''token_use'' \<noteq> Json (JsonStr ''id'')
                then error_envelope 401 ''INVALID_TOKEN_TYPE'' ''Invalid token type'' JUndefined
              else envelope 200
                     (JObj [(''message'', JStr ''Token is valid''),
                            (''data'',
                               JObj [(''sub'', of_prop (field decoded ''sub'')),
                                     (''email'', of_prop (field decoded ''email'')),
                                     (''tokenType'', of_prop (field decoded ''token_use'')),
                                     (''expiresAt'', of_prop (field decoded ''exp'')),
                                     (''issuedAt'', of_prop (field decoded ''iat''))])]))
     \<and> (\<forall>e. field decoded ''exp'' = Json (JsonNum (Finite e)) \<longrightarrow>
            to_number rt (field decoded ''exp'') = Inr (Finite e)
            \<and> num_less (Finite e) (currentTime rt) = (e < of_int (date_now rt div 1000)))
     \<and> (\<forall>error. to_number rt (field decoded ''exp'') = Inl error \<longrightarrow>
            (\<exists>xs. field decoded ''exp'' = Json (JsonArr xs))
            \<or> (\<exists>kvs. field decoded ''exp'' = Json (JsonObj kvs)
                      \<and> map_of kvs ''toString'' \<noteq> None))"
  using validate_decoded [OF assms] to_number_throws_only [of rt "field decoded ''exp''"]
  by (auto simp: currentTime_def)

theorem validate_expiry_then_token_use_witness:
  \<open>validate example_runtime (request [] (Some ''{"token":"expired"}''))
     = Inr (error_envelope 401 ''TOKEN_EXPIRED'' ''Token has expired'' JUndefined)
   \<and> validate example_runtime (request [] (Some ''{"token":"refresh"}''))
     = Inr (error_envelope 401 ''INVALID_TOKEN_TYPE'' ''Invalid token type'' JUndefined)
   \<and> validate example_runtime (request [] (Some ''{"token":"identity"}''))
     = Inr (envelope 200
              (JObj [(''message'', JStr ''Token is valid''),
                     (''data'', JObj [(''sub'', JStr ''user-1''),
                                      (''email'', JStr ''ann@example.com''),
                                      (''tokenType'', JStr ''id''),
                                      (''expiresAt'', JNum (Finite 1800000000)),
                                      (''issuedAt'', JNum (Finite 1699999000))])]))
   \<and> validate example_runtime (request [] (Some ''{"token":"object-exp"}''))
     = Inr (internal_error ''Cannot convert object to primitive value'')\<close>
  using validate_expiry_then_token_use
          [of example_runtime \<open>request [] (Some ''{"token":"expired"}'')\<close>
              "JsonObj [(''token'', JsonStr ''expired'')]" "Json (JsonStr ''expired'')"
              "JsonObj [(''header'', JsonObj [(''alg'', JsonStr ''RS256'')]),
                        (''payload'', the (map_of example_payloads ''expired'')),
                        (''signature'', JsonStr ''c2ln'')]"
              "the (map_of example_payloads ''expired'')"]
        validate_expiry_then_token_use
          [of example_runtime \<open>request [] (Some ''{"token":"refresh"}'')\<close>
              "JsonObj [(''token'', JsonStr ''refresh'')]" "Json (JsonStr ''refresh'')"
              "JsonObj [(''header'', JsonObj [(''alg'', JsonStr ''RS256'')]),
                        (''payload'', the (map_of example_payloads ''refresh'')),
                        (''signature'', JsonStr ''c2ln'')]"
              "the (map_of example_payloads ''refresh'')"]
        validate_expiry_then_token_use
          [of example_runtime \<open>request [] (Some ''{"token":"identity"}'')\<close>
              "JsonObj [(''token'', JsonStr ''identity'')]" "Json (JsonStr ''identity'')"
              "JsonObj [(''header'', JsonObj [(''alg'', JsonStr ''RS256'')]),
                        (''payload'', the (map_of example_payloads ''identity'')),
                        (''signature'', JsonStr ''c2ln'')]"
              "the (map_of example_payloads ''identity'')"]
        validate_expiry_then_token_use
          [of example_runtime \<open>request [] (Some ''{"token":"object-exp"}'')\<close>
              "JsonObj [(''token'', JsonStr ''object-exp'')]" "Json (JsonStr ''object-exp'')"
              "JsonObj [(''header'', JsonObj [(''alg'', JsonStr ''RS256'')]),
                        (''payload'', the (map_of example_payloads ''object-exp'')),
                        (''signature'', JsonStr ''c2ln'')]"
              "the (map_of example_payloads ''object-exp'')"]
  by (simp add: example_runtime_def example_bodies_def example_payloads_def request_def
        parseRequestBody_def field_def currentTime_def)

text \<open>
  The claim C1 as it is written fails on a payload whose \<^verbatim>\<open>exp\<close> is the object
  \<^verbatim>\<open>{"toString": null}\<close> and whose \<^verbatim>\<open>token_use\<close> is \<^verbatim>\<open>id\<close>: the token decodes, \<^verbatim>\<open>exp\<close> is not
  less than the current time, and the answer is neither the TOKEN_EXPIRED error nor the 200
  envelope but the INTERNAL_ERROR one with status 500, the comparison having thrown.
\<close>

theorem validate_unconvertible_exp:
  \<open>parseRequestBody example_runtime (request [] (Some ''{"token":"object-exp"}''))
     = Inr (JsonObj [(''token'', JsonStr ''object-exp'')])
   \<and> jwt_decode example_runtime (Json (JsonStr ''object-exp'')) False
     = Inr (JsonObj [(''sub'', JsonStr ''user-1''), (''email'', JsonStr ''ann@example.com''),
                     (''iat'', JsonNum (Finite 1699999000)),
                     (''exp'', JsonObj [(''toString'', JsonNull)]),
                     (''token_use'', JsonStr ''id'')])
   \<and> validate example_runtime (request [] (Some ''{"token":"object-exp"}''))
     = Inr \<lparr>statusCode = 500,
            resp_headers =
              [(''Content-Type'', ''application/json''),
               (''Access-Control-Allow-Origin'', ''*''),
               (''Access-Control-Allow-Headers'', ''Content-Type,Authorization''),
               (''Access-Control-Allow-Methods'', ''GET,POST,PUT,DELETE,OPTIONS'')],
            resp_body =
              JObj [(''error'', JStr ''INTERNAL_ERROR''),
                    (''message'', JStr ''Internal server error''),
                    (''details'', JStr ''Cannot convert object to primitive value'')]\<rparr>\<close>
  by (simp add: validate_def validate_try_def validate_catch_def bindE_def js_less_def
        parseRequestBody_def conversion_error_def createErrorResponse_def createResponse_def
        spread_def example_runtime_def example_bodies_def example_payloads_def request_def)

text \<open>
  C9. When the token decodes to a payload with no \<^verbatim>\<open>exp\<close> claim, the expiry comparison
  passes: \<^verbatim>\<open>validate\<close> does not return TOKEN_EXPIRED, and what it returns depends on
  \<^verbatim>\<open>token_use\<close> alone, the INVALID_TOKEN_TYPE error or the 200 envelope.
\<close>

theorem validate_absent_exp:
  assumes "parseRequestBody rt event = Inr body"
    and "get_prop body ''token'' = Inr token" and "truthy token"
    and "jwt_decode rt token True = Inr decodedHeader" and "truthy_json decodedHeader"
    and "jwt_decode rt token False = Inr decoded" and "truthy_json decoded"
    and "\<not> has_field decoded ''exp''"
  shows "validate rt event =
     Inr (if field decoded ''token_use'' \<noteq> Json (JsonStr ''access'')
             \<and> field decoded ''token_use'' \<noteq> Json (JsonStr ''id'')
            then error_envelope 401 ''INVALID_TOKEN_TYPE'' ''Invalid token type'' JUndefined
          else envelope 200
                 (JObj [(''message'', JStr ''Token is valid''),
                        (''data'', JObj [(''sub'', of_prop (field decoded ''sub'')),
                                         (''email'', of_prop (field decoded ''email'')),
                                         (''tokenType'', of_prop (field decoded ''token_use'')),
                                         (''expiresAt'', JUndefined),
                                         (''issuedAt'', of_prop (field decoded ''iat''))])]))
     \<and> validate rt event
         \<noteq> Inr (error_envelope 401 ''TOKEN_EXPIRED'' ''Token has expired'' JUndefined)"
proof -
  from assms(7) have "decoded \<noteq> JsonNull" by auto
  with assms(8) have "field decoded ''exp'' = Undefined"
    by (intro field_plain_name plain_names)
  with validate_decoded [OF assms(1-7)] show ?thesis by simp
qed

theorem validate_absent_exp_witness:
  \<open>validate example_runtime (request [] (Some ''{"token":"no-exp"}''))
     = Inr (envelope 200
              (JObj [(''message'', JStr ''Token is valid''),
                     (''data'', JObj [(''sub'', JStr ''user-1''),
                                      (''email'', JUndefined),
                                      (''tokenType'', JStr ''access''),
                                      (''expiresAt'', JUndefined),
                                      (''issuedAt'', JUndefined)])]))\<close>
  using validate_absent_exp
          [of example_runtime \<open>request [] (Some ''{"token":"no-exp"}'')\<close>
              "JsonObj [(''token'', JsonStr ''no-exp'')]" "Json (JsonStr ''no-exp'')"
              "JsonObj [(''header'', JsonObj [(''alg'', JsonStr ''RS256'')]),
                        (''payload'', the (map_of example_payloads ''no-exp'')),
                        (''signature'', JsonStr ''c2ln'')]"
              "the (map_of example_payloads ''no-exp'')"]
  by (simp add: example_runtime_def example_bodies_def example_payloads_def request_def
        parseRequestBody_def field_def has_field_def inherited_def object_prototype_names_def)

section \<open>Profile update and logout\<close>

lemma try_catch_world: "snd (try_catch m h) = snd m"
  by (cases m) (auto simp: try_catch_def split: sum.splits)

lemma bindS_world:
  "(\<And>x. snd (f x (snd m)) = snd m) \<Longrightarrow> snd (bindS m f) = snd m"
  by (cases m) (auto simp: bindS_def split: sum.splits)

text \<open>
  C4, as the code has it. When the body of the request parses to a value that declares none
  of the fields \<^verbatim>\<open>firstName\<close>, \<^verbatim>\<open>lastName\<close> and \<^verbatim>\<open>email\<close>, \<^verbatim>\<open>updateUser\<close> leaves the
  provider's state and the list of commands sent to it as they were, whatever the headers;
  and when moreover the request carries a bearer header whose token decodes and the body is
  not \<^verbatim>\<open>null\<close>, it returns the NO_UPDATES error with status 400.
\<close>

theorem updateUser_no_updates:
  assumes "parseRequestBody rt event = Inr body"
    and "\<not> has_field body ''firstName''"
    and "\<not> has_field body ''lastName''"
    and "\<not> has_field body ''email''"
  shows "snd (updateUser rt event w) = w
     \<and> (\<forall>token user.
           getAuthHeader event = Inr token \<and> getUserFromToken rt token = Inr user
           \<and> body \<noteq> JsonNull
           \<longrightarrow> fst (updateUser rt event w) =
                 Inr \<lparr>statusCode = 400,
                      resp_headers =
                        [(''Content-Type'', ''application/json''),
                         (''Access-Control-Allow-Origin'', ''*''),
                         (''Access-Control-Allow-Headers'', ''Content-Type,Authorization''),
                         (''Access-Control-Allow-Methods'', ''GET,POST,PUT,DELETE,OPTIONS'')],
                      resp_body =
                        JObj [(''error'', JStr ''NO_UPDATES''),
                              (''message'', JStr ''No valid fields to update''),
                              (''details'', JUndefined)]\<rparr>)"
proof (intro conjI allI impI)
  have reads: "body \<noteq> JsonNull \<Longrightarrow>
      get_prop body ''firstName'' = Inr Undefined \<and> get_prop body ''lastName'' = Inr Undefined
      \<and> get_prop body ''email'' = Inr Undefined"
    using assms(2-4) by (simp add: get_prop_not_null field_plain_name plain_names)
  show "snd (updateUser rt event w) = w"
  proof (cases "body = JsonNull")
    case True
    then show ?thesis
      using assms(1)
      by (auto simp: updateUser_def updateUser_try_def try_catch_world bindS_def
            split: sum.splits prod.splits)
  next
    case False
    then show ?thesis
      using assms(1) reads
      by (auto simp: updateUser_def updateUser_try_def try_catch_world bindS_def
            split: sum.splits prod.splits)
  qed
  fix token user
  assume "getAuthHeader event = Inr token \<and> getUserFromToken rt token = Inr user
          \<and> body \<noteq> JsonNull"
  then show "fst (updateUser rt event w) =
                 Inr \<lparr>statusCode = 400,
                      resp_headers =
                        [(''Content-Type'', ''application/json''),
                         (''Access-Control-Allow-Origin'', ''*''),
                         (''Access-Control-Allow-Headers'', ''Content-Type,Authorization''),
                         (''Access-Control-Allow-Methods'', ''GET,POST,PUT,DELETE,OPTIONS'')],
                      resp_body =
                        JObj [(''error'', JStr ''NO_UPDATES''),
                              (''message'', JStr ''No valid fields to update''),
                              (''details'', JUndefined)]\<rparr>"
    using assms(1) reads
    by (cases user)
       (simp add: updateUser_def updateUser_try_def bindS_def try_catch_def
          createErrorResponse_def createResponse_def spread_def)
qed

theorem updateUser_no_updates_witness:
  "updateUser example_runtime
     (request [(''Authorization'', ''Bearer identity'')] (Some ''{}'')) example_world
   = (Inr (error_envelope 400 ''NO_UPDATES'' ''No valid fields to update'' JUndefined),
      example_world)"
proof -
  have "parseRequestBody example_runtime
          (request [(''Authorization'', ''Bearer identity'')] (Some ''{}'')) = Inr (JsonObj [])"
    by (simp add: parseRequestBody_def example_runtime_def example_bodies_def request_def)
  from updateUser_no_updates [OF this, of example_world] show ?thesis
    by (simp add: has_field_def prod_eq_iff example_runtime_def example_payloads_def
          request_def getAuthHeader_def getUserFromToken_def bindE_def js_or_def)
qed

text \<open>
  The claim C4 as it is written fails on the body \<^verbatim>\<open>null\<close>: the header is a bearer header
  whose token decodes, the body has none of the three fields, and the answer is the
  INTERNAL_ERROR envelope with status 500, the read of \<^verbatim>\<open>firstName\<close> having thrown. No
  command is sent.
\<close>

theorem updateUser_null_body:
  "getAuthHeader (request [(''Authorization'', ''Bearer identity'')] (Some ''null''))
     = Inr ''identity''
   \<and> getUserFromToken example_runtime ''identity''
     = Inr (Json (JsonStr ''user-1''), Json (JsonStr ''ann@example.com''))
   \<and> parseRequestBody example_runtime
        (request [(''Authorization'', ''Bearer identity'')] (Some ''null'')) = Inr JsonNull
   \<and> \<not> has_field JsonNull ''firstName'' \<and> \<not> has_field JsonNull ''lastName''
   \<and> \<not> has_field JsonNull ''email''
   \<and> updateUser example_runtime
        (request [(''Authorization'', ''Bearer identity'')] (Some ''null'')) example_world
     = (Inr \<lparr>statusCode = 500,
             resp_headers =
               [(''Content-Type'', ''application/json''),
                (''Access-Control-Allow-Origin'', ''*''),
                (''Access-Control-Allow-Headers'', ''Content-Type,Authorization''),
                (''Access-Control-Allow-Methods'', ''GET,POST,PUT,DELETE,OPTIONS'')],
             resp_body =
               JObj [(''error'', JStr ''INTERNAL_ERROR''),
                     (''message'', JStr ''Internal server error''),
                     (''details'',
                        JStr (''Cannot read properties of null (reading ''
                              @ [CHR 0x27] @ ''firstName'' @ [CHR 0x27] @ '')''))]\<rparr>,
        example_world)"
  by (simp add: updateUser_def updateUser_try_def user_catch_def bindS_def bindE_def
        try_catch_def type_error_def has_field_def js_or_def getAuthHeader_def
        getUserFromToken_def parseRequestBody_def createErrorResponse_def createResponse_def
        spread_def example_runtime_def example_bodies_def example_payloads_def request_def)

text \<open>
  C5. Whatever the state of the provider, \<^verbatim>\<open>logout\<close> returns status 200 with the body
  \<^verbatim>\<open>{message: "Logout successful"}\<close>, and the provider's state and the list of commands sent
  to it are as before.
\<close>

theorem logout_always_successful:
  "logout w =
     (Inr \<lparr>statusCode = 200,
           resp_headers =
             [(''Content-Type'', ''application/json''),
              (''Access-Control-Allow-Origin'', ''*''),
              (''Access-Control-Allow-Headers'', ''Content-Type,Authorization''),
              (''Access-Control-Allow-Methods'', ''GET,POST,PUT,DELETE,OPTIONS'')],
           resp_body = JObj [(''message'', JStr ''Logout successful'')]\<rparr>, w)"
  by (simp add: logout_def try_catch_def createResponse_def spread_def)

section \<open>Registration\<close>

lemma bindS_Inr:
  "bindS m f = (Inr r, w') \<Longrightarrow> \<exists>x w. m = (Inr x, w) \<and> f x w = (Inr r, w')"
  by (cases m) (auto simp: bindS_def split: sum.splits)

lemma client_send_sent: "client_send rt cmd w = (res, w') \<Longrightarrow> sent w' = sent w @ [cmd]"
  by (auto simp: client_send_def split: prod.splits)

lemma register_try_success:
  assumes "register_try rt event w = (Inr r, w')"
  shows "\<exists>input attrs password_input.
           sent w' = sent w @ [AdminCreateUserCommand input,
                               AdminSetUserPasswordCommand password_input]
           \<and> doc_field input ''UserAttributes'' = JArr attrs
           \<and> email_verified_attribute \<in> set attrs"
  using assms unfolding register_try_def Let_def
  apply -
  apply (drule bindS_Inr, clarsimp)+
  apply (drule client_send_sent)+
  apply (simp add: email_verified_attribute_def doc_field_def)
  done

lemma try_catch_Inr_cases:
  "try_catch m h = (Inr r, w') \<Longrightarrow> m = (Inr r, w') \<or> (\<exists>e. m = (Inl e, w') \<and> h e = Inr r)"
  by (cases m) (auto simp: try_catch_def split: sum.splits)

lemma register_catch_status: "register_catch e = Inr r \<Longrightarrow> statusCode r \<noteq> 201"
  by (auto simp: register_catch_def createErrorResponse_def createResponse_def
           split: js_exn.splits if_splits)

text \<open>
  C10. When \<^verbatim>\<open>register\<close> succeeds (status 201), it has sent two commands to the provider, the
  creation of the user and the setting of the password, and the attributes of the creation
  include \<^verbatim>\<open>email_verified\<close> with the value \<^verbatim>\<open>'true'\<close>.
\<close>

theorem register_marks_email_verified:
  assumes "fst (register rt event w) = Inr r" and "statusCode r = 201"
  shows "\<exists>input attrs password_input.
           sent (snd (register rt event w))
             = sent w @ [AdminCreateUserCommand input,
                         AdminSetUserPasswordCommand password_input]
           \<and> doc_field input ''UserAttributes'' = JArr attrs
           \<and> email_verified_attribute \<in> set attrs"
proof -
  obtain w' where reg: "register rt event w = (Inr r, w')"
    using assms(1) by (cases "register rt event w") simp
  then have "register_try rt event w = (Inr r, w')
      \<or> (\<exists>e. register_try rt event w = (Inl e, w') \<and> register_catch e = Inr r)"
    unfolding register_def by (rule try_catch_Inr_cases)
  with assms(2) register_catch_status have "register_try rt event w = (Inr r, w')" by blast
  then have "\<exists>input attrs password_input.
           sent w' = sent w @ [AdminCreateUserCommand input,
                               AdminSetUserPasswordCommand password_input]
           \<and> doc_field input ''UserAttributes'' = JArr attrs
           \<and> email_verified_attribute \<in> set attrs"
    by (rule register_try_success)
  then show ?thesis by (simp only: reg snd_conv)
qed

theorem register_marks_email_verified_witness:
  \<open>fst (register example_runtime
          (request [] (Some ''{"email":"ann@example.com","password":"Secret#1"}''))
          example_world)
     = Inr (envelope 201
              (JObj [(''message'', JStr ''User registered successfully''),
                     (''data'', JObj [(''email'', JStr ''ann@example.com'')])]))
   \<and> (\<exists>input attrs password_input.
         sent (snd (register example_runtime
                      (request [] (Some ''{"email":"ann@example.com","password":"Secret#1"}''))
                      example_world))
           = [AdminCreateUserCommand input, AdminSetUserPasswordCommand password_input]
         \<and> doc_field input ''UserAttributes'' = JArr attrs
         \<and> email_verified_attribute \<in> set attrs)\<close>
proof -
  have r: \<open>fst (register example_runtime
          (request [] (Some ''{"email":"ann@example.com","password":"Secret#1"}''))
          example_world)
     = Inr (envelope 201
              (JObj [(''message'', JStr ''User registered successfully''),
                     (''data'', JObj [(''email'', JStr ''ann@example.com'')])]))\<close>
    by (simp add: register_def register_try_def bindS_def try_catch_def
          validateRequiredFields_def bindE_def client_send_def parseRequestBody_def
          inherited_def object_prototype_names_def createResponse_def spread_def
          example_runtime_def example_bodies_def example_world_def request_def empty_output_def)
  have s: "statusCode (envelope 201
              (JObj [(''message'', JStr ''User registered successfully''),
                     (''data'', JObj [(''email'', JStr ''ann@example.com'')])])) = 201"
    by simp
  show ?thesis
    using r register_marks_email_verified [OF r s] by (simp add: example_world_def)
qed

section \<open>Failures stay inside the handlers\<close>















lemma internal_error_built:
  "createErrorResponse 500 ''INTERNAL_ERROR'' ''Internal server error'' (JStr details)
     = internal_error details"
  by (simp add: createErrorResponse_def createResponse_def spread_def)
















section \<open>Missing required fields\<close>

text \<open>
  C3 asks for status 400 when a required field is absent or falsy. The error thrown by
  \<^verbatim>\<open>validateRequiredFields\<close> has the name \<^verbatim>\<open>Error\<close>, which no \<^verbatim>\<open>catch\<close> block maps: when the
  body is an object in which a required field is absent or falsy, \<^verbatim>\<open>login\<close>, \<^verbatim>\<open>register\<close>,
  \<^verbatim>\<open>refreshToken\<close> and \<^verbatim>\<open>changePassword\<close> (this one past its bearer header) return the
  INTERNAL_ERROR envelope with status 500, the list of the missing fields as details.
\<close>

theorem missing_required_field_internal_error:
  assumes "parseRequestBody rt event = Inr (JsonObj kvs)"
  shows "((field_missing kvs ''email'' \<or> field_missing kvs ''password'') \<longrightarrow>
            login rt event w =
              (Inr (internal_error (''Missing required fields: ''
                 @ join '', '' (filter (field_missing kvs) [''email'', ''password'']))), w)
          \<and> register rt event w =
              (Inr (internal_error (''Missing required fields: ''
                 @ join '', '' (filter (field_missing kvs) [''email'', ''password'']))), w))
       \<and> (field_missing kvs ''refreshToken'' \<longrightarrow>
            refreshToken rt event w =
              (Inr (internal_error ''Missing required fields: refreshToken''), w))
       \<and> ((field_missing kvs ''oldPassword'' \<or> field_missing kvs ''newPassword'') \<longrightarrow>
            (\<forall>token user.
               getAuthHeader event = Inr token \<and> getUserFromToken rt token = Inr user \<longrightarrow>
               changePassword rt event w =
                 (Inr (internal_error (''Missing required fields: ''
                    @ join '', ''
                        (filter (field_missing kvs) [''oldPassword'', ''newPassword'']))), w)))"
proof (intro conjI impI allI)
  assume "field_missing kvs ''email'' \<or> field_missing kvs ''password''"
  then have v: "validateRequiredFields (JsonObj kvs) [''email'', ''password''] =
     Inl (JsError ''Error'' (''Missing required fields: ''
            @ join '', '' (filter (field_missing kvs) [''email'', ''password''])))"
    by (intro validateRequiredFields_missing required_names_own) auto
  show "login rt event w =
          (Inr (internal_error (''Missing required fields: ''
             @ join '', '' (filter (field_missing kvs) [''email'', ''password'']))), w)"
    using assms
    by (simp add: login_def login_try_def bindS_def try_catch_def v login_catch_def
          internal_error_built)
  show "register rt event w =
          (Inr (internal_error (''Missing required fields: ''
             @ join '', '' (filter (field_missing kvs) [''email'', ''password'']))), w)"
    using assms
    by (simp add: register_def register_try_def bindS_def try_catch_def v register_catch_def
          internal_error_built)
next
  assume "field_missing kvs ''refreshToken''"
  then have v: "validateRequiredFields (JsonObj kvs) [''refreshToken''] =
     Inl (JsError ''Error'' ''Missing required fields: refreshToken'')"
    using validateRequiredFields_missing [OF required_names_own(2), of kvs] by simp
  show "refreshToken rt event w =
          (Inr (internal_error ''Missing required fields: refreshToken''), w)"
    using assms
    by (simp add: refreshToken_def refreshToken_try_def bindS_def try_catch_def v
          refreshToken_catch_def internal_error_built)
next
  fix token user
  assume m: "field_missing kvs ''oldPassword'' \<or> field_missing kvs ''newPassword''"
    and h: "getAuthHeader event = Inr token \<and> getUserFromToken rt token = Inr user"
  from m have v: "validateRequiredFields (JsonObj kvs) [''oldPassword'', ''newPassword''] =
     Inl (JsError ''Error'' (''Missing required fields: ''
            @ join '', '' (filter (field_missing kvs) [''oldPassword'', ''newPassword''])))"
    by (intro validateRequiredFields_missing required_names_own) auto
  show "changePassword rt event w =
          (Inr (internal_error (''Missing required fields: ''
             @ join '', ''
                 (filter (field_missing kvs) [''oldPassword'', ''newPassword'']))), w)"
    using assms h
    by (cases user)
       (simp add: changePassword_def changePassword_try_def bindS_def try_catch_def v
          changePassword_catch_def internal_error_built)
qed

theorem missing_required_field_internal_error_witness:
  \<open>login example_runtime (request [(''Authorization'', ''Bearer identity'')] (Some ''{}''))
     example_world
     = (Inr (internal_error ''Missing required fields: email, password''), example_world)
   \<and> register example_runtime
       (request [(''Authorization'', ''Bearer identity'')] (Some ''{}'')) example_world
     = (Inr (internal_error ''Missing required fields: email, password''), example_world)
   \<and> refreshToken example_runtime
       (request [(''Authorization'', ''Bearer identity'')] (Some ''{}'')) example_world
     = (Inr (internal_error ''Missing required fields: refreshToken''), example_world)
   \<and> changePassword example_runtime
       (request [(''Authorization'', ''Bearer identity'')] (Some ''{}'')) example_world
     = (Inr (internal_error ''Missing required fields: oldPassword, newPassword''),
        example_world)
   \<and> statusCode (internal_error ''Missing required fields: email, password'') = 500\<close>
  using missing_required_field_internal_error
          [of example_runtime "request [(''Authorization'', ''Bearer identity'')] (Some ''{}'')"
              "[]" example_world]
  by (simp add: example_runtime_def example_bodies_def example_payloads_def request_def
        parseRequestBody_def getAuthHeader_def getUserFromToken_def bindE_def js_or_def
        field_missing_def)

end
